theory Spec2Isabelle
  imports Main "HOL-Library.Word"
begin

section \<open>Data model of smart\_pointers.h\<close>

text \<open>
  The counters of a control block are \<^verbatim>\<open>size_t\<close>: 64-bit words, \<open>+\<close> and \<open>-\<close> wrap.
  A \<^verbatim>\<open>T*\<close> is \<open>None\<close> for \<^verbatim>\<open>nullptr\<close> or the address of an object: an object that
  was allocated on its own (\<open>Heap n\<close>), or the field \<^verbatim>\<open>_object\<close> of the
  \<^verbatim>\<open>shared_block\<close> at address \<open>b\<close> (\<open>Embedded b\<close>). A \<^verbatim>\<open>base_block*\<close> is \<open>None\<close>
  or the address of a control block.
\<close>

type_synonym size_t = "64 word"

datatype obj_addr = Heap nat | Embedded nat

type_synonym pointer = "obj_addr option"

type_synonym block_pointer = "nat option"

text \<open>\<^verbatim>\<open>SharedPtr<T>\<close> and \<^verbatim>\<open>WeakPtr<T>\<close>: the fields \<^verbatim>\<open>_ptr\<close> and \<^verbatim>\<open>_control_block\<close>.\<close>

record SharedPtr =
  sp_ptr :: pointer
  sp_control_block :: block_pointer

record WeakPtr =
  wp_ptr :: pointer
  wp_control_block :: block_pointer

text \<open>
  A managed object. The library looks at one thing only: whether its class derives from
  \<^verbatim>\<open>EnableSharedFromThis\<close>, and then at the member \<^verbatim>\<open>_weak_ptr\<close>. Objects hold no
  other handles in this model.
\<close>

datatype object = Plain | Self_observing WeakPtr

text \<open>
  The \<^verbatim>\<open>Deleter\<close> of a \<^verbatim>\<open>regular_block\<close>: \<^verbatim>\<open>std::default_delete\<close>, which runs the
  destructor of the object and frees it, or a deleter of the caller, of which the model
  records the call and nothing more (it leaves the object where it is).
\<close>

datatype deleter = Default_delete | Custom_deleter

text \<open>
  The two classes derived from \<^verbatim>\<open>base_block\<close>: \<^verbatim>\<open>regular_block\<close> with \<^verbatim>\<open>_pointer\<close>
  and \<^verbatim>\<open>_deleter\<close>, \<^verbatim>\<open>shared_block\<close> with \<^verbatim>\<open>_object\<close>. Allocator objects are not
  told apart: one heap of control blocks stands for all of them.
\<close>

datatype block_variant = Regular_block pointer deleter | Shared_block object

record base_block =
  shared_counter :: size_t
  weak_counter :: size_t
  variant :: block_variant

text \<open>
  What the program does to the outside, in order: \<^verbatim>\<open>destroy()\<close> entered on a block,
  the lifetime of an object ended (the deleter called on it, or its destructor run in
  place), \<^verbatim>\<open>deallocate()\<close> releasing the storage of a block.
\<close>

datatype event = Ev_destroy nat | Ev_object_destroyed obj_addr | Ev_deallocate nat

text \<open>
  The memory: the control blocks that are constructed and not released (\<open>blocks\<close>), the
  block-sized units of storage handed out by \<^verbatim>\<open>allocate\<close> and not given back
  (\<open>allocated\<close>), the live objects that were allocated on their own (\<open>objects\<close>), the
  next address \<^verbatim>\<open>allocate\<close> hands out, and the events so far.
\<close>

record state =
  blocks :: "nat \<rightharpoonup> base_block"
  allocated :: "nat set"
  objects :: "nat \<rightharpoonup> object"
  next_addr :: nat
  log :: "event list"

text \<open>
  Undefined behaviour and exceptions are results. \<open>Use_after_free\<close>: the code reads,
  writes or calls a control block whose storage is released. \<open>Invalid_pointer\<close>: a
  \<^verbatim>\<open>T*\<close> that does not designate a live object is dereferenced or deleted.
  \<open>Constructor_exception s\<close>: the constructor of the managed object threw, and the
  exception leaves \<^verbatim>\<open>allocateShared\<close> with the memory in state \<open>s\<close>.
\<close>

datatype error = Use_after_free | Invalid_pointer | Null_dereference
  | Constructor_exception state

definition and_then :: "error + 'a \<Rightarrow> ('a \<Rightarrow> error + 'b) \<Rightarrow> error + 'b" where
  "and_then r f = (case r of Inl e \<Rightarrow> Inl e | Inr x \<Rightarrow> f x)"

definition get_block :: "state \<Rightarrow> nat \<Rightarrow> error + base_block" where
  "get_block s b = (case blocks s b of None \<Rightarrow> Inl Use_after_free | Some blk \<Rightarrow> Inr blk)"

definition put_block :: "state \<Rightarrow> nat \<Rightarrow> base_block \<Rightarrow> state" where
  "put_block s b blk = s\<lparr>blocks := (blocks s)(b \<mapsto> blk)\<rparr>"

definition emit :: "event \<Rightarrow> state \<Rightarrow> state" where
  "emit e s = s\<lparr>log := log s @ [e]\<rparr>"

text \<open>
  \<^verbatim>\<open>std::allocator_traits<block_alloc>::allocate(alloc, 1)\<close>: one unit of storage at
  an address not handed out before. The allocator of the model does not run out of memory.
\<close>

definition allocate :: "state \<Rightarrow> nat \<times> state" where
  "allocate s =
     (next_addr s,
      s\<lparr>allocated := insert (next_addr s) (allocated s), next_addr := Suc (next_addr s)\<rparr>)"

text \<open>
  \<^verbatim>\<open>regular_block::deallocate\<close> and \<^verbatim>\<open>shared_block::deallocate\<close> (lines 58-64, 85-90):
  a virtual call on the block, which releases the one unit of storage the block lives in.
\<close>

definition deallocate :: "state \<Rightarrow> nat \<Rightarrow> error + state" where
  "deallocate s b =
     (case blocks s b of
        None \<Rightarrow> Inl Use_after_free
      | Some blk \<Rightarrow>
          Inr (emit (Ev_deallocate b)
                 (s\<lparr>blocks := (blocks s)(b := None), allocated := allocated s - {b}\<rparr>)))"

section \<open>WeakPtr\<close>

definition WeakPtr_default :: WeakPtr where
  "WeakPtr_default = \<lparr>wp_ptr = None, wp_control_block = None\<rparr>"

text \<open>Lines 382-391.\<close>

definition WeakPtr_dtor :: "state \<Rightarrow> WeakPtr \<Rightarrow> error + state" where
  "WeakPtr_dtor s w =
     (case wp_control_block w of
        None \<Rightarrow> Inr s
      | Some b \<Rightarrow>
          and_then (get_block s b) (\<lambda>blk.
            let blk' = blk\<lparr>weak_counter := weak_counter blk - 1\<rparr>;
                s1 = put_block s b blk'
            in if shared_counter blk' = 0 \<and> weak_counter blk' = 0
               then deallocate s1 b else Inr s1))"

text \<open>Lines 318-323 (and 325-331: no cast, the pointer is copied as it is).\<close>

definition WeakPtr_copy :: "state \<Rightarrow> WeakPtr \<Rightarrow> error + (WeakPtr \<times> state)" where
  "WeakPtr_copy s another =
     (case wp_control_block another of
        None \<Rightarrow> Inr (\<lparr>wp_ptr = wp_ptr another, wp_control_block = None\<rparr>, s)
      | Some b \<Rightarrow>
          and_then (get_block s b) (\<lambda>blk.
            Inr (\<lparr>wp_ptr = wp_ptr another, wp_control_block = Some b\<rparr>,
                 put_block s b (blk\<lparr>weak_counter := weak_counter blk + 1\<rparr>))))"

text \<open>Lines 359-365: a \<^verbatim>\<open>WeakPtr\<close> from a \<^verbatim>\<open>SharedPtr\<close>.\<close>

definition WeakPtr_from_shared :: "state \<Rightarrow> SharedPtr \<Rightarrow> error + (WeakPtr \<times> state)" where
  "WeakPtr_from_shared s another =
     (case sp_control_block another of
        None \<Rightarrow> Inr (\<lparr>wp_ptr = sp_ptr another, wp_control_block = None\<rparr>, s)
      | Some b \<Rightarrow>
          and_then (get_block s b) (\<lambda>blk.
            Inr (\<lparr>wp_ptr = sp_ptr another, wp_control_block = Some b\<rparr>,
                 put_block s b (blk\<lparr>weak_counter := weak_counter blk + 1\<rparr>))))"


text \<open>Lines 371-380.\<close>

definition WeakPtr_use_count :: "state \<Rightarrow> WeakPtr \<Rightarrow> error + size_t" where
  "WeakPtr_use_count s w =
     (case wp_control_block w of
        None \<Rightarrow> Inr 0
      | Some b \<Rightarrow> and_then (get_block s b) (\<lambda>blk. Inr (shared_counter blk)))"

definition expired :: "state \<Rightarrow> WeakPtr \<Rightarrow> error + bool" where
  "expired s w = and_then (WeakPtr_use_count s w) (\<lambda>c. Inr (c = 0))"

section \<open>Objects and the two control blocks\<close>

text \<open>Reading and writing the object a \<^verbatim>\<open>T*\<close> points to.\<close>

definition get_object :: "state \<Rightarrow> obj_addr \<Rightarrow> error + object" where
  "get_object s a =
     (case a of
        Heap n \<Rightarrow> (case objects s n of None \<Rightarrow> Inl Invalid_pointer | Some obj \<Rightarrow> Inr obj)
      | Embedded b \<Rightarrow>
          and_then (get_block s b) (\<lambda>blk.
            case variant blk of
              Shared_block obj \<Rightarrow> Inr obj
            | Regular_block p del \<Rightarrow> Inl Invalid_pointer))"

definition put_object :: "state \<Rightarrow> obj_addr \<Rightarrow> object \<Rightarrow> error + state" where
  "put_object s a obj =
     (case a of
        Heap n \<Rightarrow>
          (case objects s n of
             None \<Rightarrow> Inl Invalid_pointer
           | Some old \<Rightarrow> Inr (s\<lparr>objects := (objects s)(n \<mapsto> obj)\<rparr>))
      | Embedded b \<Rightarrow>
          and_then (get_block s b) (\<lambda>blk.
            case variant blk of
              Shared_block old \<Rightarrow> Inr (put_block s b (blk\<lparr>variant := Shared_block obj\<rparr>))
            | Regular_block p del \<Rightarrow> Inl Invalid_pointer))"

text \<open>
  The destructor of a managed object: it destroys the member \<^verbatim>\<open>_weak_ptr\<close> of the base
  class \<^verbatim>\<open>EnableSharedFromThis\<close> (line 423), when the class has it.
\<close>

definition object_dtor :: "state \<Rightarrow> object \<Rightarrow> error + state" where
  "object_dtor s obj = (case obj of Plain \<Rightarrow> Inr s | Self_observing w \<Rightarrow> WeakPtr_dtor s w)"

text \<open>\<^verbatim>\<open>_deleter(_pointer)\<close>, line 53.\<close>

definition call_deleter :: "state \<Rightarrow> deleter \<Rightarrow> obj_addr \<Rightarrow> error + state" where
  "call_deleter s del a =
     (case del of
        Custom_deleter \<Rightarrow> Inr (emit (Ev_object_destroyed a) s)
      | Default_delete \<Rightarrow>
          (case a of
             Embedded b \<Rightarrow> Inl Invalid_pointer
           | Heap n \<Rightarrow>
               (case objects s n of
                  None \<Rightarrow> Inl Invalid_pointer
                | Some obj \<Rightarrow>
                    and_then (object_dtor (emit (Ev_object_destroyed a) s) obj) (\<lambda>s1.
                      Inr (s1\<lparr>objects := (objects s1)(n := None)\<rparr>)))))"

text \<open>
  \<^verbatim>\<open>regular_block::destroy\<close> (lines 51-56) and \<^verbatim>\<open>shared_block::destroy\<close> (lines 81-83),
  chosen by the class of the block (the virtual call). The regular block writes
  \<^verbatim>\<open>_pointer = nullptr\<close> after the deleter has returned.
\<close>

definition destroy :: "state \<Rightarrow> nat \<Rightarrow> error + state" where
  "destroy s b =
     and_then (get_block s b) (\<lambda>blk.
       case variant blk of
         Regular_block p del \<Rightarrow>
           (case p of
              None \<Rightarrow> Inr (emit (Ev_destroy b) s)
            | Some a \<Rightarrow>
                and_then (call_deleter (emit (Ev_destroy b) s) del a) (\<lambda>s1.
                  and_then (get_block s1 b) (\<lambda>blk1.
                    Inr (put_block s1 b (blk1\<lparr>variant := Regular_block None del\<rparr>)))))
       | Shared_block obj \<Rightarrow>
           object_dtor (emit (Ev_object_destroyed (Embedded b)) (emit (Ev_destroy b) s)) obj)"

section \<open>SharedPtr\<close>

definition SharedPtr_default :: SharedPtr where
  "SharedPtr_default = \<lparr>sp_ptr = None, sp_control_block = None\<rparr>"

text \<open>Lines 97-102, the private constructor: \<^verbatim>\<open>_shared_counter += val\<close> with an \<^verbatim>\<open>int\<close>.\<close>

definition SharedPtr_private ::
  "state \<Rightarrow> int \<Rightarrow> pointer \<Rightarrow> block_pointer \<Rightarrow> error + (SharedPtr \<times> state)" where
  "SharedPtr_private s val p cb =
     (case cb of
        None \<Rightarrow> Inr (\<lparr>sp_ptr = p, sp_control_block = None\<rparr>, s)
      | Some b \<Rightarrow>
          and_then (get_block s b) (\<lambda>blk.
            Inr (\<lparr>sp_ptr = p, sp_control_block = Some b\<rparr>,
                 put_block s b (blk\<lparr>shared_counter := shared_counter blk + of_int val\<rparr>))))"

text \<open>Lines 155-160.\<close>

definition SharedPtr_copy :: "state \<Rightarrow> SharedPtr \<Rightarrow> error + (SharedPtr \<times> state)" where
  "SharedPtr_copy s another =
     (case sp_control_block another of
        None \<Rightarrow> Inr (\<lparr>sp_ptr = sp_ptr another, sp_control_block = None\<rparr>, s)
      | Some b \<Rightarrow>
          and_then (get_block s b) (\<lambda>blk.
            Inr (\<lparr>sp_ptr = sp_ptr another, sp_control_block = Some b\<rparr>,
                 put_block s b (blk\<lparr>shared_counter := shared_counter blk + 1\<rparr>))))"

text \<open>
  \<^verbatim>\<open>dynamic_cast<T*>(p)\<close>: \<^verbatim>\<open>nullptr\<close> stays \<^verbatim>\<open>nullptr\<close>; otherwise the pointer, when
  the object it points to is a \<^verbatim>\<open>T\<close> (the predicate \<open>is_T\<close>, the dynamic types of the
  program), and \<^verbatim>\<open>nullptr\<close> when it is not.
\<close>

definition dynamic_cast :: "(obj_addr \<Rightarrow> bool) \<Rightarrow> pointer \<Rightarrow> pointer" where
  "dynamic_cast is_T p = (case p of None \<Rightarrow> None | Some a \<Rightarrow> if is_T a then Some a else None)"

text \<open>Lines 162-169, the copy from a \<^verbatim>\<open>SharedPtr<U>\<close>.\<close>

definition SharedPtr_copy_cross ::
  "state \<Rightarrow> (obj_addr \<Rightarrow> bool) \<Rightarrow> SharedPtr \<Rightarrow> error + (SharedPtr \<times> state)" where
  "SharedPtr_copy_cross s is_T another =
     (case sp_control_block another of
        None \<Rightarrow> Inr (\<lparr>sp_ptr = dynamic_cast is_T (sp_ptr another), sp_control_block = None\<rparr>, s)
      | Some b \<Rightarrow>
          and_then (get_block s b) (\<lambda>blk.
            Inr (\<lparr>sp_ptr = dynamic_cast is_T (sp_ptr another), sp_control_block = Some b\<rparr>,
                 put_block s b (blk\<lparr>shared_counter := shared_counter blk + 1\<rparr>))))"

text \<open>
  Lines 171-175 and 177-183, the move constructors: the new handle and what is left of
  \<^verbatim>\<open>another\<close>. No block is touched.
\<close>

definition SharedPtr_move :: "SharedPtr \<Rightarrow> SharedPtr \<times> SharedPtr" where
  "SharedPtr_move another =
     (\<lparr>sp_ptr = sp_ptr another, sp_control_block = sp_control_block another\<rparr>,
      another\<lparr>sp_ptr := None, sp_control_block := None\<rparr>)"

definition SharedPtr_move_cross :: "(obj_addr \<Rightarrow> bool) \<Rightarrow> SharedPtr \<Rightarrow> SharedPtr \<times> SharedPtr" where
  "SharedPtr_move_cross is_T another =
     (\<lparr>sp_ptr = dynamic_cast is_T (sp_ptr another), sp_control_block = sp_control_block another\<rparr>,
      another\<lparr>sp_ptr := None, sp_control_block := None\<rparr>)"

text \<open>Lines 231-236.\<close>

definition use_count :: "state \<Rightarrow> SharedPtr \<Rightarrow> error + size_t" where
  "use_count s p =
     (case sp_control_block p of
        None \<Rightarrow> Inr 0
      | Some b \<Rightarrow> and_then (get_block s b) (\<lambda>blk. Inr (shared_counter blk)))"

text \<open>
  Lines 251-264, the destructor. The second test reads both counters of the block again,
  after \<^verbatim>\<open>destroy()\<close> has returned. The write \<^verbatim>\<open>_ptr = nullptr\<close> goes to the handle
  that is dying and is not modelled.
\<close>

definition SharedPtr_dtor :: "state \<Rightarrow> SharedPtr \<Rightarrow> error + state" where
  "SharedPtr_dtor s p =
     (case sp_control_block p of
        None \<Rightarrow> Inr s
      | Some b \<Rightarrow>
          and_then (get_block s b) (\<lambda>blk.
            let blk' = blk\<lparr>shared_counter := shared_counter blk - 1\<rparr>;
                s1 = put_block s b blk'
            in and_then
                 (if shared_counter blk' = 0 \<and> sp_ptr p \<noteq> None then destroy s1 b else Inr s1)
                 (\<lambda>s2.
                    and_then (get_block s2 b) (\<lambda>blk2.
                      if shared_counter blk2 = 0 \<and> weak_counter blk2 = 0
                      then deallocate s2 b else Inr s2))))"

text \<open>Lines 266-269: \<^verbatim>\<open>*this\<close> and \<^verbatim>\<open>another\<close> after the two \<^verbatim>\<open>std::swap\<close>.\<close>

definition SharedPtr_swap :: "SharedPtr \<Rightarrow> SharedPtr \<Rightarrow> SharedPtr \<times> SharedPtr" where
  "SharedPtr_swap this another =
     (\<lparr>sp_ptr = sp_ptr another, sp_control_block = sp_control_block another\<rparr>,
      \<lparr>sp_ptr = sp_ptr this, sp_control_block = sp_control_block this\<rparr>)"

text \<open>
  Lines 185-188, \<^verbatim>\<open>SharedPtr(another).swap(*this)\<close>: the temporary is copied from
  \<^verbatim>\<open>another\<close>, swapped with \<^verbatim>\<open>*this\<close>, and dies holding the old fields of
  \<^verbatim>\<open>*this\<close>. \<^verbatim>\<open>another\<close> is read before \<^verbatim>\<open>*this\<close> is written and not after, so
  passing both by value is also right when they are one object. The result is the new
  \<^verbatim>\<open>*this\<close>.
\<close>

definition SharedPtr_assign ::
  "state \<Rightarrow> SharedPtr \<Rightarrow> SharedPtr \<Rightarrow> error + (SharedPtr \<times> state)" where
  "SharedPtr_assign s this another =
     and_then (SharedPtr_copy s another) (\<lambda>(tmp, s1).
       let (tmp', this') = SharedPtr_swap tmp this
       in and_then (SharedPtr_dtor s1 tmp') (\<lambda>s2. Inr (this', s2)))"

text \<open>Lines 190-194, the same from a \<^verbatim>\<open>SharedPtr<U>\<close>.\<close>

definition SharedPtr_assign_cross ::
  "state \<Rightarrow> (obj_addr \<Rightarrow> bool) \<Rightarrow> SharedPtr \<Rightarrow> SharedPtr \<Rightarrow> error + (SharedPtr \<times> state)" where
  "SharedPtr_assign_cross s is_T this another =
     and_then (SharedPtr_copy_cross s is_T another) (\<lambda>(tmp, s1).
       let (tmp', this') = SharedPtr_swap tmp this
       in and_then (SharedPtr_dtor s1 tmp') (\<lambda>s2. Inr (this', s2)))"

text \<open>
  Lines 196-199, \<^verbatim>\<open>SharedPtr(std::move(another)).swap(*this)\<close>. The move constructor
  writes \<^verbatim>\<open>another\<close>, which may be \<^verbatim>\<open>*this\<close>, so the handles are variables of a
  store here: \<open>vars\<close> gives the handle at each location, \<open>this\<close> and \<open>another\<close> are
  locations.
\<close>

definition SharedPtr_move_assign ::
  "state \<Rightarrow> (nat \<Rightarrow> SharedPtr) \<Rightarrow> nat \<Rightarrow> nat \<Rightarrow> error + ((nat \<Rightarrow> SharedPtr) \<times> state)" where
  "SharedPtr_move_assign s vars this another =
     (let (tmp, another') = SharedPtr_move (vars another);
          vars1 = vars(another := another');
          (tmp', this') = SharedPtr_swap tmp (vars1 this);
          vars2 = vars1(this := this')
      in and_then (SharedPtr_dtor s tmp') (\<lambda>s'. Inr (vars2, s')))"

text \<open>
  Lines 201-205, the move assignment from a \<^verbatim>\<open>SharedPtr<U>\<close>, an object of another
  class than \<^verbatim>\<open>*this\<close>: the new \<^verbatim>\<open>*this\<close>, what is left of \<^verbatim>\<open>another\<close>, the memory.
\<close>

definition SharedPtr_move_assign_cross ::
  "state \<Rightarrow> (obj_addr \<Rightarrow> bool) \<Rightarrow> SharedPtr \<Rightarrow> SharedPtr
     \<Rightarrow> error + (SharedPtr \<times> SharedPtr \<times> state)" where
  "SharedPtr_move_assign_cross s is_T this another =
     (let (tmp, another') = SharedPtr_move_cross is_T another;
          (tmp', this') = SharedPtr_swap tmp this
      in and_then (SharedPtr_dtor s tmp') (\<lambda>s'. Inr (this', another', s')))"

section \<open>lock and EnableSharedFromThis\<close>

text \<open>Lines 367-369.\<close>

definition lock :: "state \<Rightarrow> WeakPtr \<Rightarrow> error + (SharedPtr \<times> state)" where
  "lock s w = SharedPtr_private s 1 (wp_ptr w) (wp_control_block w)"

text \<open>Lines 413-415, called on the object at \<open>a\<close>.\<close>

definition shared_from_this :: "state \<Rightarrow> obj_addr \<Rightarrow> error + (SharedPtr \<times> state)" where
  "shared_from_this s a =
     and_then (get_object s a) (\<lambda>obj.
       case obj of Plain \<Rightarrow> Inl Invalid_pointer | Self_observing w \<Rightarrow> lock s w)"

text \<open>
  Lines 417-420, \<^verbatim>\<open>_weak_ptr = ptr\<close> on the object at \<open>a\<close>. The argument is a
  \<^verbatim>\<open>SharedPtr\<close>, so a temporary \<^verbatim>\<open>WeakPtr\<close> is made from it (lines 359-365) and
  assigned (lines 346-350, written out: the copy, the swap that writes the member, the
  death of the copy with the old fields); then the temporary dies.
\<close>

definition set_pointer :: "state \<Rightarrow> obj_addr \<Rightarrow> SharedPtr \<Rightarrow> error + state" where
  "set_pointer s a p =
     and_then (WeakPtr_from_shared s p) (\<lambda>(tmp, s1).
       and_then (get_object s1 a) (\<lambda>obj.
         case obj of
           Plain \<Rightarrow> Inl Invalid_pointer
         | Self_observing w \<Rightarrow>
             and_then (WeakPtr_copy s1 tmp) (\<lambda>(copy, s2).
               and_then (put_object s2 a (Self_observing copy)) (\<lambda>s3.
                 and_then (WeakPtr_dtor s3 w) (\<lambda>s4.
                   WeakPtr_dtor s4 tmp)))))"

section \<open>Construction from a raw pointer, and in place\<close>

text \<open>\<^verbatim>\<open>block_type(1, 0, ptr, del, allocator)\<close>, lines 145 and 151.\<close>

definition new_regular_block :: "pointer \<Rightarrow> deleter \<Rightarrow> base_block" where
  "new_regular_block p del =
     \<lparr>shared_counter = 1, weak_counter = 0, variant = Regular_block p del\<rparr>"

text \<open>
  Lines 128-153. \<open>self_observing\<close> is the compile-time test
  \<^verbatim>\<open>is_base_of_v<EnableSharedFromThis<U>, U>\<close>. The local \<^verbatim>\<open>shared_ptr\<close> dies when the
  constructor returns, on both ways out. In \<^verbatim>\<open>*this = shared_ptr\<close> the handle under
  construction has \<^verbatim>\<open>_ptr = ptr\<close> and no block yet; a cast from \<^verbatim>\<open>U*\<close> to the base
  \<^verbatim>\<open>T*\<close> keeps the pointer.
\<close>

definition SharedPtr_from_raw ::
  "state \<Rightarrow> bool \<Rightarrow> pointer \<Rightarrow> deleter \<Rightarrow> error + (SharedPtr \<times> state)" where
  "SharedPtr_from_raw s self_observing ptr del =
     (if self_observing then
        (case ptr of
           None \<Rightarrow> Inl Null_dereference
         | Some a \<Rightarrow>
             and_then (shared_from_this s a) (\<lambda>(shared_ptr, s1).
               and_then (use_count s1 shared_ptr) (\<lambda>c.
                 if c \<noteq> 0 then
                   and_then
                     (SharedPtr_assign s1 \<lparr>sp_ptr = ptr, sp_control_block = None\<rparr> shared_ptr)
                     (\<lambda>(this, s2).
                        and_then (SharedPtr_dtor s2 shared_ptr) (\<lambda>s3. Inr (this, s3)))
                 else
                   let (b, s2) = allocate s1;
                       s3 = put_block s2 b (new_regular_block ptr del);
                       this = \<lparr>sp_ptr = ptr, sp_control_block = Some b\<rparr>
                   in and_then (set_pointer s3 a this) (\<lambda>s4.
                        and_then (SharedPtr_dtor s4 shared_ptr) (\<lambda>s5. Inr (this, s5))))))
      else
        (let (b, s1) = allocate s;
             s2 = put_block s1 b (new_regular_block ptr del)
         in Inr (\<lparr>sp_ptr = ptr, sp_control_block = Some b\<rparr>, s2)))"

text \<open>
  The constructor of the managed object belongs to the caller: it throws or it returns.
  A new object of a class with the capability starts with \<^verbatim>\<open>_weak_ptr = WeakPtr<T>()\<close>
  (line 423).
\<close>

datatype ctor_outcome = Ctor_throws | Ctor_returns

definition new_object :: "bool \<Rightarrow> object" where
  "new_object self_observing = (if self_observing then Self_observing WeakPtr_default else Plain)"

text \<open>
  Lines 283-295. \<^verbatim>\<open>construct\<close> builds the \<^verbatim>\<open>shared_block\<close> in the storage:
  \<^verbatim>\<open>base_block(1, 0)\<close>, then \<^verbatim>\<open>_object(args...)\<close>, the constructor of the managed
  object. There is no handler around it.
\<close>

definition allocateShared :: "state \<Rightarrow> bool \<Rightarrow> ctor_outcome \<Rightarrow> error + (SharedPtr \<times> state)" where
  "allocateShared s self_observing ctor =
     (let (b, s1) = allocate s
      in case ctor of
           Ctor_throws \<Rightarrow> Inl (Constructor_exception s1)
         | Ctor_returns \<Rightarrow>
             (let s2 = put_block s1 b
                         \<lparr>shared_counter = 1, weak_counter = 0,
                          variant = Shared_block (new_object self_observing)\<rparr>
              in SharedPtr_private s2 0 (Some (Embedded b)) (Some b)))"

text \<open>Lines 297-300.\<close>

definition makeShared :: "state \<Rightarrow> bool \<Rightarrow> ctor_outcome \<Rightarrow> error + (SharedPtr \<times> state)" where
  "makeShared s self_observing ctor = allocateShared s self_observing ctor"

section \<open>Programs over the handles\<close>

text \<open>\<open>n\<close> copies of the handle \<open>p\<close>, made one after the other by the copy constructor.\<close>

fun copy_n :: "state \<Rightarrow> SharedPtr \<Rightarrow> nat \<Rightarrow> error + (SharedPtr list \<times> state)" where
  "copy_n s p 0 = Inr ([], s)"
| "copy_n s p (Suc n) =
     and_then (SharedPtr_copy s p) (\<lambda>(q, s1).
       and_then (copy_n s1 p n) (\<lambda>(qs, s2). Inr (q # qs, s2)))"

text \<open>The empty memory at program start.\<close>

definition init :: state where
  "init = \<lparr>blocks = Map.empty, allocated = {}, objects = Map.empty, next_addr = 0, log = []\<rparr>"

text \<open>
  A memory in which one plain object, allocated by the caller with \<^verbatim>\<open>new\<close>, is owned by
  one handle through a regular block: what \<^verbatim>\<open>SharedPtr<T>(new T)\<close> leaves behind.
\<close>

definition owner :: SharedPtr where
  "owner = \<lparr>sp_ptr = Some (Heap 0), sp_control_block = Some 0\<rparr>"

definition owned_block :: base_block where
  "owned_block = new_regular_block (Some (Heap 0)) Default_delete"

definition owned :: state where
  "owned = \<lparr>blocks = [0 \<mapsto> owned_block], allocated = {0}, objects = [0 \<mapsto> Plain],
            next_addr = 1, log = []\<rparr>"

text \<open>A memory with one object of a class with the capability, not owned by any handle yet.\<close>

definition unowned_observer :: state where
  "unowned_observer = init\<lparr>objects := [0 \<mapsto> Self_observing WeakPtr_default]\<rparr>"

text \<open>
  The same object once a handle has been constructed from its address: the block counts
  the handle and the \<^verbatim>\<open>_weak_ptr\<close> of the object.
\<close>

definition observed :: state where
  "observed =
     \<lparr>blocks = [0 \<mapsto> \<lparr>shared_counter = 1, weak_counter = 1,
                       variant = Regular_block (Some (Heap 0)) Default_delete\<rparr>],
      allocated = {0},
      objects = [0 \<mapsto> Self_observing \<lparr>wp_ptr = Some (Heap 0), wp_control_block = Some 0\<rparr>],
      next_addr = 1, log = []\<rparr>"

text \<open>
  \<^verbatim>\<open>auto p = makeShared<T>(); WeakPtr<T> w(p);\<close> and then \<^verbatim>\<open>p\<close> dies: the weak handle
  that is left, and the memory.
\<close>

definition expired_weak :: "error + (WeakPtr \<times> state)" where
  "expired_weak =
     and_then (makeShared init False Ctor_returns) (\<lambda>(p, s1).
       and_then (WeakPtr_from_shared s1 p) (\<lambda>(w, s2).
         and_then (SharedPtr_dtor s2 p) (\<lambda>s3. Inr (w, s3))))"

text \<open>
  \<^verbatim>\<open>SharedPtr<Base> p(new Base); SharedPtr<Derived> q(p);\<close> where the object is not a
  \<^verbatim>\<open>Derived\<close>; then \<^verbatim>\<open>p\<close> dies, then \<^verbatim>\<open>q\<close>.
\<close>

definition hollow_last :: "error + state" where
  "hollow_last =
     and_then (SharedPtr_from_raw (init\<lparr>objects := [0 \<mapsto> Plain]\<rparr>) False (Some (Heap 0))
                 Default_delete) (\<lambda>(p, s1).
       and_then (SharedPtr_copy_cross s1 (\<lambda>a. False) p) (\<lambda>(q, s2).
         and_then (SharedPtr_dtor s2 p) (\<lambda>s3. SharedPtr_dtor s3 q)))"

text \<open>
  \<^verbatim>\<open>{ SharedPtr<T> p(new T); }\<close> for a class \<^verbatim>\<open>T\<close> with the capability: the handle is
  constructed from the raw pointer and dies.
\<close>

definition observer_round_trip :: "error + state" where
  "observer_round_trip =
     and_then (SharedPtr_from_raw unowned_observer True (Some (Heap 0)) Default_delete)
       (\<lambda>(p, s1). SharedPtr_dtor s1 p)"

text \<open>
  A handle is sound in a memory when it is empty, or its block is live and counts at
  least one owner (the handle itself).
\<close>

definition holds_share :: "state \<Rightarrow> SharedPtr \<Rightarrow> bool" where
  "holds_share s p =
     (case sp_control_block p of
        None \<Rightarrow> True
      | Some b \<Rightarrow> (case blocks s b of None \<Rightarrow> False | Some blk \<Rightarrow> shared_counter blk \<noteq> 0))"

section \<open>Basic facts\<close>

lemma and_then_Inl: "and_then (Inl e) f = Inl e"
  by (simp add: and_then_def)

lemma and_then_Inr: "and_then (Inr x) f = f x"
  by (simp add: and_then_def)


lemma SharedPtr_eta_Some:
  "sp_control_block p = Some b \<Longrightarrow> \<lparr>sp_ptr = sp_ptr p, sp_control_block = Some b\<rparr> = (p::SharedPtr)"
  by (cases p) simp


lemma SharedPtr_eta: "\<lparr>sp_ptr = sp_ptr p, sp_control_block = sp_control_block p\<rparr> = (p::SharedPtr)"
  by (cases p) simp

lemma put_block_same: "blocks s b = Some blk \<Longrightarrow> put_block s b blk = s"
  by (simp add: put_block_def map_upd_triv)

lemma SharedPtr_dtor_empty: "sp_control_block p = None \<Longrightarrow> SharedPtr_dtor s p = Inr s"
  by (simp add: SharedPtr_dtor_def)


text \<open>A handle that is not the last owner dies by decrementing the counter, and no more.\<close>

lemma SharedPtr_dtor_not_last:
  "blocks s b = Some blk \<Longrightarrow> sp_control_block p = Some b \<Longrightarrow> shared_counter blk \<noteq> 1 \<Longrightarrow>
   SharedPtr_dtor s p = Inr (put_block s b (blk\<lparr>shared_counter := shared_counter blk - 1\<rparr>))"
  by (simp add: SharedPtr_dtor_def get_block_def and_then_Inr Let_def put_block_def)

lemma SharedPtr_copy_live:
  "blocks s b = Some blk \<Longrightarrow> sp_control_block p = Some b \<Longrightarrow>
   SharedPtr_copy s p = Inr (p, put_block s b (blk\<lparr>shared_counter := shared_counter blk + 1\<rparr>))"
  by (simp add: SharedPtr_copy_def get_block_def and_then_Inr SharedPtr_eta_Some)

lemma use_count_live:
  "blocks s b = Some blk \<Longrightarrow> sp_control_block p = Some b \<Longrightarrow> use_count s p = Inr (shared_counter blk)"
  by (simp add: use_count_def get_block_def and_then_Inr)

lemma blocks_put_block: "blocks (put_block s b blk) b = Some blk"
  by (simp add: put_block_def)

lemma put_block_twice: "put_block (put_block s b blk) b blk' = put_block s b blk'"
  by (simp add: put_block_def)

section \<open>lock on an expired handle\<close>

lemma expired_weak_value:
  "expired_weak =
     Inr (\<lparr>wp_ptr = Some (Embedded 0), wp_control_block = Some 0\<rparr>,
          \<lparr>blocks = [0 \<mapsto> \<lparr>shared_counter = 0, weak_counter = 1, variant = Shared_block Plain\<rparr>],
           allocated = {0}, objects = Map.empty, next_addr = Suc 0,
           log = [Ev_destroy 0, Ev_object_destroyed (Embedded 0)]\<rparr>)"
  by (simp add: expired_weak_def makeShared_def allocateShared_def allocate_def init_def
      put_block_def SharedPtr_private_def get_block_def and_then_Inr WeakPtr_from_shared_def
      SharedPtr_dtor_def Let_def destroy_def emit_def object_dtor_def new_object_def)

text \<open>
  Claim C1 asks that \<^verbatim>\<open>lock()\<close> on a weak handle whose block has a strong count of 0
  returns an empty handle and leaves the count at 0. The code does not: after
  \<^verbatim>\<open>makeShared\<close>, a weak handle and the death of the only strong handle, the weak handle
  is expired (\<^verbatim>\<open>expired()\<close> is true, the object is destroyed), and \<^verbatim>\<open>lock()\<close> returns a
  handle with the pointer of the dead object and a use count of 1.
\<close>

theorem lock_on_expired_raises_count:
  "and_then expired_weak (\<lambda>(w, s).
     and_then (expired s w) (\<lambda>e.
       and_then (lock s w) (\<lambda>(l, s').
         and_then (use_count s' l) (\<lambda>c. Inr (e, l, c))))) =
   Inr (True, \<lparr>sp_ptr = Some (Embedded 0), sp_control_block = Some 0\<rparr>, 1)"
  by (simp add: expired_weak_value and_then_Inr expired_def WeakPtr_use_count_def get_block_def
      lock_def SharedPtr_private_def put_block_def use_count_def)

text \<open>
  The same for every memory: on a live block \<^verbatim>\<open>lock()\<close> adds one to the strong count,
  whatever it was.
\<close>

lemma lock_live_block:
  "blocks s b = Some blk \<Longrightarrow> wp_control_block w = Some b \<Longrightarrow>
   lock s w = Inr (\<lparr>sp_ptr = wp_ptr w, sp_control_block = Some b\<rparr>,
                   put_block s b (blk\<lparr>shared_counter := shared_counter blk + 1\<rparr>))"
  by (simp add: lock_def SharedPtr_private_def get_block_def and_then_Inr)

section \<open>Destruction of the managed object\<close>

text \<open>
  Claim C2 asks that the managed object is destroyed exactly once, when the last strong
  handle of its block dies. The code does not when that last handle is one whose
  \<^verbatim>\<open>dynamic_cast\<close> failed: its \<^verbatim>\<open>_ptr\<close> is null, the destructor skips \<^verbatim>\<open>destroy()\<close>
  (line 256) and releases the block. The object is still there at the end and no event
  says it was destroyed.
\<close>

theorem last_hollow_handle_never_destroys:
  "hollow_last =
     Inr \<lparr>blocks = Map.empty, allocated = {}, objects = [0 \<mapsto> Plain], next_addr = Suc 0,
          log = [Ev_deallocate 0]\<rparr>"
  by (simp add: hollow_last_def SharedPtr_from_raw_def allocate_def init_def put_block_def
      new_regular_block_def and_then_Inr SharedPtr_copy_cross_def get_block_def dynamic_cast_def
      SharedPtr_dtor_def Let_def deallocate_def emit_def)

text \<open>
  The other way round: a handle that \<^verbatim>\<open>lock()\<close> made from an expired weak handle
  destroys the object of an in-place block a second time when it dies.
\<close>

lemma locked_expired_handle_destroys_again:
  "and_then expired_weak (\<lambda>(w, s). and_then (lock s w) (\<lambda>(l, s'). SharedPtr_dtor s' l)) =
     Inr \<lparr>blocks = [0 \<mapsto> \<lparr>shared_counter = 0, weak_counter = 1, variant = Shared_block Plain\<rparr>],
          allocated = {0}, objects = Map.empty, next_addr = Suc 0,
          log = [Ev_destroy 0, Ev_object_destroyed (Embedded 0),
                 Ev_destroy 0, Ev_object_destroyed (Embedded 0)]\<rparr>"
  by (simp add: expired_weak_value and_then_Inr lock_def SharedPtr_private_def get_block_def
      put_block_def SharedPtr_dtor_def Let_def destroy_def emit_def object_dtor_def)

section \<open>Release of the control block\<close>

lemma from_raw_unowned_observer:
  "SharedPtr_from_raw unowned_observer True (Some (Heap 0)) Default_delete = Inr (owner, observed)"
  by (simp add: unowned_observer_def init_def SharedPtr_from_raw_def shared_from_this_def
      get_object_def and_then_Inr lock_def SharedPtr_private_def WeakPtr_default_def use_count_def
      allocate_def put_block_def new_regular_block_def set_pointer_def WeakPtr_from_shared_def
      get_block_def WeakPtr_copy_def put_object_def WeakPtr_dtor_def Let_def SharedPtr_dtor_def
      owner_def observed_def)

text \<open>
  In that memory the last strong handle dies: the counter goes to 0 and \<^verbatim>\<open>destroy()\<close>
  calls the deleter, which destroys the object and with it the \<^verbatim>\<open>_weak_ptr\<close> inside;
  that is the last weak handle, so its destructor releases the block, inside the deleter.
\<close>

lemma deleter_releases_block:
  "call_deleter (emit (Ev_destroy 0) (put_block observed 0
       \<lparr>shared_counter = 0, weak_counter = 1,
        variant = Regular_block (Some (Heap 0)) Default_delete\<rparr>)) Default_delete (Heap 0) =
     Inr \<lparr>blocks = Map.empty, allocated = {}, objects = Map.empty, next_addr = 1,
          log = [Ev_destroy 0, Ev_object_destroyed (Heap 0), Ev_deallocate 0]\<rparr>"
  by (simp add: call_deleter_def observed_def put_block_def emit_def object_dtor_def
      WeakPtr_dtor_def get_block_def and_then_Inr Let_def deallocate_def)

text \<open>
  Claim C3 asks that the storage of a control block is released exactly once, at the
  first moment both counters are 0. The code releases it at that moment, inside
  \<^verbatim>\<open>destroy()\<close>, and goes on using the block: \<^verbatim>\<open>regular_block::destroy\<close> writes
  \<^verbatim>\<open>_pointer\<close> (line 54), and the destructor of the handle reads both counters again
  and calls \<^verbatim>\<open>deallocate()\<close> when they read 0 (lines 260-262). The first of these
  accesses to released storage is where the model stops.
\<close>

theorem observer_last_handle_uses_released_block:
  "observer_round_trip = Inl Use_after_free"
  by (simp add: observer_round_trip_def from_raw_unowned_observer and_then_Inr and_then_Inl
      SharedPtr_dtor_def owner_def observed_def get_block_def put_block_def Let_def destroy_def
      call_deleter_def emit_def object_dtor_def WeakPtr_dtor_def deallocate_def)

section \<open>An exception in the constructor of the managed object\<close>

text \<open>
  Claim C4 says that the storage of the block is released before the exception leaves
  \<^verbatim>\<open>allocateShared\<close>. It is not: in the empty memory the exception leaves with the unit
  at address 0 allocated, and no \<^verbatim>\<open>deallocate()\<close> among the events.
\<close>

theorem allocateShared_throw_keeps_storage:
  "allocateShared init False Ctor_throws =
     Inl (Constructor_exception
            \<lparr>blocks = Map.empty, allocated = {0}, objects = Map.empty, next_addr = Suc 0,
             log = []\<rparr>)
   \<and> allocated init = {}"
  by (simp add: allocateShared_def allocate_def init_def)

text \<open>
  Claim C4 as the code has it: when the constructor of the managed object throws, the
  exception leaves \<^verbatim>\<open>allocateShared\<close> (and \<^verbatim>\<open>makeShared\<close>) and no handle is returned; the
  unit of storage allocated for the block stays allocated, no block is constructed, no
  \<^verbatim>\<open>deallocate()\<close> is called, and nothing else in memory is touched.
\<close>

theorem allocateShared_throw_propagates:
  "allocateShared s self_observing Ctor_throws =
     Inl (Constructor_exception
            (s\<lparr>allocated := insert (next_addr s) (allocated s), next_addr := Suc (next_addr s)\<rparr>))
   \<and> makeShared s self_observing Ctor_throws = allocateShared s self_observing Ctor_throws"
  by (simp add: allocateShared_def allocate_def makeShared_def)

section \<open>Conversion to an incompatible class\<close>

text \<open>
  Claim C5: when the source of a cross-type construction or assignment points to an
  object that is not of the target class, the new handle has a null pointer and the
  control block of the source. The copy adds one to the strong count of that block; the
  move changes no counter and leaves the source empty. The assignments do the same to a
  temporary and then let the old value of the target die.
\<close>

theorem cross_type_incompatible_is_hollow:
  assumes "blocks s b = Some blk"
    and "sp_control_block another = Some b"
    and "sp_ptr another = Some a"
    and "\<not> is_T a"
  shows "SharedPtr_copy_cross s is_T another =
           Inr (\<lparr>sp_ptr = None, sp_control_block = Some b\<rparr>,
                put_block s b (blk\<lparr>shared_counter := shared_counter blk + 1\<rparr>))
       \<and> use_count (put_block s b (blk\<lparr>shared_counter := shared_counter blk + 1\<rparr>))
            \<lparr>sp_ptr = None, sp_control_block = Some b\<rparr> = Inr (shared_counter blk + 1)
       \<and> SharedPtr_move_cross is_T another =
           (\<lparr>sp_ptr = None, sp_control_block = Some b\<rparr>, SharedPtr_default)
       \<and> use_count s \<lparr>sp_ptr = None, sp_control_block = Some b\<rparr> = Inr (shared_counter blk)
       \<and> SharedPtr_assign_cross s is_T this another =
           and_then
             (SharedPtr_dtor (put_block s b (blk\<lparr>shared_counter := shared_counter blk + 1\<rparr>)) this)
             (\<lambda>s'. Inr (\<lparr>sp_ptr = None, sp_control_block = Some b\<rparr>, s'))
       \<and> SharedPtr_move_assign_cross s is_T this another =
           and_then (SharedPtr_dtor s this)
             (\<lambda>s'. Inr (\<lparr>sp_ptr = None, sp_control_block = Some b\<rparr>, SharedPtr_default, s'))"
proof -
  have cast: "dynamic_cast is_T (sp_ptr another) = None"
    using assms(3,4) by (simp add: dynamic_cast_def)
  have copy: "SharedPtr_copy_cross s is_T another =
           Inr (\<lparr>sp_ptr = None, sp_control_block = Some b\<rparr>,
                put_block s b (blk\<lparr>shared_counter := shared_counter blk + 1\<rparr>))"
    using assms(1,2) cast by (simp add: SharedPtr_copy_cross_def get_block_def and_then_Inr)
  have move: "SharedPtr_move_cross is_T another =
           (\<lparr>sp_ptr = None, sp_control_block = Some b\<rparr>, SharedPtr_default)"
    using assms(2) cast by (simp add: SharedPtr_move_cross_def SharedPtr_default_def)
  have old: "\<lparr>sp_ptr = sp_ptr this, sp_control_block = sp_control_block this\<rparr> = this"
    by (rule SharedPtr_eta)
  have assign: "SharedPtr_assign_cross s is_T this another =
           and_then
             (SharedPtr_dtor (put_block s b (blk\<lparr>shared_counter := shared_counter blk + 1\<rparr>)) this)
             (\<lambda>s'. Inr (\<lparr>sp_ptr = None, sp_control_block = Some b\<rparr>, s'))"
    by (simp add: SharedPtr_assign_cross_def copy and_then_Inr SharedPtr_swap_def old)
  have move_assign: "SharedPtr_move_assign_cross s is_T this another =
           and_then (SharedPtr_dtor s this)
             (\<lambda>s'. Inr (\<lparr>sp_ptr = None, sp_control_block = Some b\<rparr>, SharedPtr_default, s'))"
    by (simp add: SharedPtr_move_assign_cross_def move SharedPtr_swap_def old)
  have uc1: "use_count (put_block s b (blk\<lparr>shared_counter := shared_counter blk + 1\<rparr>))
            \<lparr>sp_ptr = None, sp_control_block = Some b\<rparr> = Inr (shared_counter blk + 1)"
    by (simp add: use_count_def get_block_def put_block_def and_then_Inr)
  have uc0: "use_count s \<lparr>sp_ptr = None, sp_control_block = Some b\<rparr> = Inr (shared_counter blk)"
    using assms(1) by (simp add: use_count_def get_block_def and_then_Inr)
  show ?thesis using copy uc1 move uc0 assign move_assign by simp
qed

theorem cross_type_incompatible_is_hollow_witness:
  "SharedPtr_copy_cross owned (\<lambda>a. False) owner =
     Inr (\<lparr>sp_ptr = None, sp_control_block = Some 0\<rparr>,
          put_block owned 0 (owned_block\<lparr>shared_counter := shared_counter owned_block + 1\<rparr>))
   \<and> use_count (put_block owned 0 (owned_block\<lparr>shared_counter := shared_counter owned_block + 1\<rparr>))
        \<lparr>sp_ptr = None, sp_control_block = Some 0\<rparr> = Inr 2
   \<and> SharedPtr_move_cross (\<lambda>a. False) owner =
       (\<lparr>sp_ptr = None, sp_control_block = Some 0\<rparr>, SharedPtr_default)
   \<and> SharedPtr_assign_cross owned (\<lambda>a. False) SharedPtr_default owner =
       Inr (\<lparr>sp_ptr = None, sp_control_block = Some 0\<rparr>,
            put_block owned 0 (owned_block\<lparr>shared_counter := shared_counter owned_block + 1\<rparr>))
   \<and> SharedPtr_move_assign_cross owned (\<lambda>a. False) SharedPtr_default owner =
       Inr (\<lparr>sp_ptr = None, sp_control_block = Some 0\<rparr>, SharedPtr_default, owned)"
proof -
  have h1: "blocks owned 0 = Some owned_block" by (simp add: owned_def)
  have h2: "sp_control_block owner = Some 0" by (simp add: owner_def)
  have h3: "sp_ptr owner = Some (Heap 0)" by (simp add: owner_def)
  have h4: "\<not> (\<lambda>a. False) (Heap 0)" by simp
  have d: "SharedPtr_dtor t SharedPtr_default = Inr t" for t
    by (simp add: SharedPtr_dtor_empty SharedPtr_default_def)
  have one: "shared_counter owned_block = 1" by (simp add: owned_block_def new_regular_block_def)
  show ?thesis
    using cross_type_incompatible_is_hollow [OF h1 h2 h3 h4, of SharedPtr_default]
    by (simp add: d and_then_Inr one)
qed

section \<open>Construction from a raw pointer to a self-observing object\<close>

lemma lock_cases:
  assumes "lock s w = Inr (h, s1)"
  shows "(wp_control_block w = None \<and> h = \<lparr>sp_ptr = wp_ptr w, sp_control_block = None\<rparr> \<and> s1 = s) \<or>
     (\<exists>b blk. wp_control_block w = Some b \<and> blocks s b = Some blk
        \<and> h = \<lparr>sp_ptr = wp_ptr w, sp_control_block = Some b\<rparr>
        \<and> s1 = put_block s b (blk\<lparr>shared_counter := shared_counter blk + 1\<rparr>))"
  using assms
  by (auto simp: lock_def SharedPtr_private_def get_block_def and_then_def split: option.splits)

lemma shared_from_this_cases:
  assumes "shared_from_this s a = Inr (h, s1)"
  shows "\<exists>w. get_object s a = Inr (Self_observing w) \<and> lock s w = Inr (h, s1)"
  using assms
  by (auto simp: shared_from_this_def and_then_def split: sum.splits object.splits)

text \<open>
  The first way out of the constructor: the handle that \<^verbatim>\<open>shared_from_this()\<close> returned
  has a use count other than 0. The new handle is a copy of it; the copy and the death of
  the local cancel, so the memory is the one \<^verbatim>\<open>shared_from_this()\<close> left.
\<close>

lemma from_raw_alias:
  assumes sft: "shared_from_this s a = Inr (h, s1)"
      and uc: "use_count s1 h = Inr c" and nz: "c \<noteq> 0"
  shows "SharedPtr_from_raw s True (Some a) del = Inr (h, s1) \<and> sp_control_block h \<noteq> None
     \<and> allocated s1 = allocated s \<and> next_addr s1 = next_addr s \<and> log s1 = log s"
proof -
  obtain w where w: "get_object s a = Inr (Self_observing w)" "lock s w = Inr (h, s1)"
    using shared_from_this_cases [OF sft] by blast
  from lock_cases [OF w(2)] uc nz
  obtain b blk where b: "wp_control_block w = Some b" "blocks s b = Some blk"
     "h = \<lparr>sp_ptr = wp_ptr w, sp_control_block = Some b\<rparr>"
     "s1 = put_block s b (blk\<lparr>shared_counter := shared_counter blk + 1\<rparr>)"
    by (auto simp: use_count_def)
  have hb: "sp_control_block h = Some b" using b by simp
  have c: "c = shared_counter blk + 1"
    using uc b by (simp add: use_count_def get_block_def put_block_def and_then_Inr)
  let ?blk1 = "blk\<lparr>shared_counter := c\<rparr>"
  let ?blk2 = "blk\<lparr>shared_counter := c + 1\<rparr>"
  have s1: "s1 = put_block s b ?blk1" using b c by simp
  have b1: "blocks s1 b = Some ?blk1" using s1 by (simp add: put_block_def)
  let ?s2 = "put_block s1 b ?blk2"
  have asg: "SharedPtr_assign s1 \<lparr>sp_ptr = Some a, sp_control_block = None\<rparr> h = Inr (h, ?s2)"
    using b b1
    by (simp add: SharedPtr_assign_def SharedPtr_copy_def SharedPtr_swap_def SharedPtr_dtor_def
        get_block_def and_then_Inr)
  have b2: "blocks ?s2 b = Some ?blk2" by (simp add: put_block_def)
  have ne1: "shared_counter ?blk2 \<noteq> 1" using nz by simp
  have "SharedPtr_dtor ?s2 h =
          Inr (put_block ?s2 b (?blk2\<lparr>shared_counter := shared_counter ?blk2 - 1\<rparr>))"
    by (rule SharedPtr_dtor_not_last [OF b2 hb ne1])
  also have "put_block ?s2 b (?blk2\<lparr>shared_counter := shared_counter ?blk2 - 1\<rparr>) = s1"
    by (simp add: s1 put_block_def)
  finally have d: "SharedPtr_dtor ?s2 h = Inr s1" .
  have "SharedPtr_from_raw s True (Some a) del = Inr (h, s1)"
    using sft uc nz asg d by (simp add: SharedPtr_from_raw_def and_then_Inr)
  then show ?thesis using b by (simp add: put_block_def)
qed

lemma get_object_put_block:
  "a \<noteq> Embedded b \<Longrightarrow> get_object (put_block s b blk) a = get_object s a"
  by (cases a) (simp_all add: get_object_def put_block_def get_block_def)

lemma get_object_allocate:
  "get_object (s\<lparr>allocated := A, next_addr := n\<rparr>) a = get_object s a"
  by (cases a) (simp_all add: get_object_def get_block_def)

lemma put_object_live:
  assumes "get_object s a = Inr old"
  shows "\<exists>s'. put_object s a obj = Inr s' \<and> get_object s' a = Inr obj \<and>
            (\<forall>b. a \<noteq> Embedded b \<longrightarrow> blocks s' b = blocks s b) \<and>
            allocated s' = allocated s \<and> log s' = log s"
proof (cases a)
  case (Heap n)
  then show ?thesis using assms
    by (auto simp: get_object_def put_object_def split: option.splits)
next
  case (Embedded b')
  from assms Embedded obtain blk where blk: "blocks s b' = Some blk" "variant blk = Shared_block old"
    by (auto simp: get_object_def get_block_def and_then_def split: option.splits block_variant.splits)
  have "put_object s a obj = Inr (put_block s b' (blk\<lparr>variant := Shared_block obj\<rparr>))"
    using blk Embedded by (simp add: put_object_def get_block_def and_then_Inr)
  moreover have "get_object (put_block s b' (blk\<lparr>variant := Shared_block obj\<rparr>)) a = Inr obj"
    using Embedded by (simp add: get_object_def get_block_def put_block_def and_then_Inr)
  ultimately show ?thesis using Embedded by (simp add: put_block_def)
qed

text \<open>
  The second way out, for an object whose \<^verbatim>\<open>_weak_ptr\<close> has no block: a regular block
  is made in fresh storage with the counters 1 and 0, and \<^verbatim>\<open>set_pointer\<close> leaves the
  \<^verbatim>\<open>_weak_ptr\<close> of the object on it, which is the one weak handle the block then counts.
\<close>

lemma from_raw_fresh:
  assumes sft: "shared_from_this s a = Inr (h, s1)"
      and nb: "sp_control_block h = None" and fr: "a \<noteq> Embedded (next_addr s)"
  shows "\<exists>s'. SharedPtr_from_raw s True (Some a) del =
                 Inr (\<lparr>sp_ptr = Some a, sp_control_block = Some (next_addr s)\<rparr>, s')
            \<and> blocks s' (next_addr s) = Some ((new_regular_block (Some a) del)\<lparr>weak_counter := 1\<rparr>)
            \<and> get_object s' a =
                 Inr (Self_observing \<lparr>wp_ptr = Some a, wp_control_block = Some (next_addr s)\<rparr>)
            \<and> allocated s' = insert (next_addr s) (allocated s) \<and> log s' = log s"
proof -
  obtain w where w: "get_object s a = Inr (Self_observing w)" "lock s w = Inr (h, s1)"
    using shared_from_this_cases [OF sft] by blast
  from lock_cases [OF w(2)] nb
  have e: "wp_control_block w = None" "s1 = s"
    by auto
  have uc: "use_count s h = Inr 0" using nb by (simp add: use_count_def)
  let ?b = "next_addr s"
  let ?nrb = "new_regular_block (Some a) del"
  let ?new = "\<lparr>sp_ptr = Some a, sp_control_block = Some ?b\<rparr>"
  let ?tmp = "\<lparr>wp_ptr = Some a, wp_control_block = Some ?b\<rparr>"
  let ?s2 = "s\<lparr>allocated := insert ?b (allocated s), next_addr := Suc ?b\<rparr>"
  let ?s3 = "put_block ?s2 ?b ?nrb"
  let ?s4 = "put_block ?s3 ?b (?nrb\<lparr>weak_counter := 1\<rparr>)"
  let ?s5 = "put_block ?s4 ?b (?nrb\<lparr>weak_counter := 2\<rparr>)"
  have al: "allocate s = (?b, ?s2)" by (simp add: allocate_def)
  have ws: "WeakPtr_from_shared ?s3 ?new = Inr (?tmp, ?s4)"
    by (simp add: WeakPtr_from_shared_def get_block_def put_block_def and_then_Inr
        new_regular_block_def)
  have go: "get_object ?s4 a = Inr (Self_observing w)"
    using w(1) fr by (simp add: get_object_put_block get_object_allocate)
  have wc: "WeakPtr_copy ?s4 ?tmp = Inr (?tmp, ?s5)"
    by (simp add: WeakPtr_copy_def get_block_def put_block_def and_then_Inr new_regular_block_def)
  have go5: "get_object ?s5 a = Inr (Self_observing w)"
    using go fr by (simp add: get_object_put_block)
  obtain s6 where s6: "put_object ?s5 a (Self_observing ?tmp) = Inr s6"
      "get_object s6 a = Inr (Self_observing ?tmp)"
      "\<forall>b. a \<noteq> Embedded b \<longrightarrow> blocks s6 b = blocks ?s5 b"
      "allocated s6 = allocated ?s5" "log s6 = log ?s5"
    using put_object_live [OF go5] by blast
  have b6: "blocks s6 ?b = Some (?nrb\<lparr>weak_counter := 2\<rparr>)"
    using s6(3) fr by (simp add: put_block_def)
  have d1: "WeakPtr_dtor s6 w = Inr s6" using e by (simp add: WeakPtr_dtor_def)
  let ?s7 = "put_block s6 ?b (?nrb\<lparr>weak_counter := 1\<rparr>)"
  have d2: "WeakPtr_dtor s6 ?tmp = Inr ?s7"
    using b6 by (simp add: WeakPtr_dtor_def get_block_def and_then_Inr Let_def new_regular_block_def)
  have sp: "set_pointer ?s3 a ?new = Inr ?s7"
    using ws go wc s6(1) d1 d2 by (simp add: set_pointer_def and_then_Inr)
  have d3: "SharedPtr_dtor ?s7 h = Inr ?s7" using nb by (simp add: SharedPtr_dtor_def)
  have "SharedPtr_from_raw s True (Some a) del = Inr (?new, ?s7)"
    using sft e uc al sp d3 by (simp add: SharedPtr_from_raw_def and_then_Inr)
  moreover have "blocks ?s7 ?b = Some (?nrb\<lparr>weak_counter := 1\<rparr>)" by (simp add: put_block_def)
  moreover have "get_object ?s7 a = Inr (Self_observing ?tmp)"
    using s6(2) fr by (simp add: get_object_put_block)
  moreover have "allocated ?s7 = insert ?b (allocated s)" using s6(4) by (simp add: put_block_def)
  moreover have "log ?s7 = log s" using s6(5) by (simp add: put_block_def)
  ultimately show ?thesis by blast
qed

text \<open>After that, \<^verbatim>\<open>shared_from_this()\<close> on the object gives a second owner of the block.\<close>

lemma shared_from_this_registered:
  assumes "get_object s a = Inr (Self_observing \<lparr>wp_ptr = Some a, wp_control_block = Some b\<rparr>)"
    and "blocks s b = Some blk"
  shows "shared_from_this s a =
           Inr (\<lparr>sp_ptr = Some a, sp_control_block = Some b\<rparr>,
                put_block s b (blk\<lparr>shared_counter := shared_counter blk + 1\<rparr>))"
  using assms
  by (simp add: shared_from_this_def and_then_Inr lock_def SharedPtr_private_def get_block_def)

text \<open>
  Claim C6, for the constructor from a raw pointer \<open>Some a\<close> to an object of a class with
  the capability. \<open>h\<close> is the handle \<^verbatim>\<open>shared_from_this()\<close> returns and \<open>c\<close> its use
  count. If \<open>c\<close> is not 0 the new handle is \<open>h\<close>: it has the control block the object
  already had, and nothing is allocated. Otherwise (the object has no block yet) the new
  handle points to \<open>a\<close> and has a new regular block in fresh storage, made with a strong
  count of 1 and a weak count of 0; the \<^verbatim>\<open>_weak_ptr\<close> of the object is set on that block,
  which makes its weak count 1, and a later \<^verbatim>\<open>shared_from_this()\<close> returns a second
  owner of the block.
\<close>

theorem from_raw_self_observing:
  assumes "shared_from_this s a = Inr (h, s1)"
    and "use_count s1 h = Inr c"
    and "c = 0 \<longrightarrow> sp_control_block h = None \<and> a \<noteq> Embedded (next_addr s)"
  shows "if c \<noteq> 0
         then SharedPtr_from_raw s True (Some a) del = Inr (h, s1) \<and> sp_control_block h \<noteq> None
              \<and> allocated s1 = allocated s \<and> next_addr s1 = next_addr s \<and> log s1 = log s
         else (\<exists>s'. SharedPtr_from_raw s True (Some a) del =
                       Inr (\<lparr>sp_ptr = Some a, sp_control_block = Some (next_addr s)\<rparr>, s')
                \<and> blocks s' (next_addr s) =
                    Some ((new_regular_block (Some a) del)\<lparr>weak_counter := 1\<rparr>)
                \<and> get_object s' a =
                    Inr (Self_observing \<lparr>wp_ptr = Some a, wp_control_block = Some (next_addr s)\<rparr>)
                \<and> allocated s' = insert (next_addr s) (allocated s) \<and> log s' = log s
                \<and> shared_from_this s' a =
                    Inr (\<lparr>sp_ptr = Some a, sp_control_block = Some (next_addr s)\<rparr>,
                         put_block s' (next_addr s)
                           ((new_regular_block (Some a) del)
                              \<lparr>shared_counter := 2, weak_counter := 1\<rparr>)))"
proof (cases "c = 0")
  case False
  then show ?thesis using from_raw_alias [OF assms(1) assms(2)] by simp
next
  case True
  then have nb: "sp_control_block h = None" and fr: "a \<noteq> Embedded (next_addr s)"
    using assms(3) by simp_all
  obtain s' where s': "SharedPtr_from_raw s True (Some a) del =
                 Inr (\<lparr>sp_ptr = Some a, sp_control_block = Some (next_addr s)\<rparr>, s')"
      "blocks s' (next_addr s) = Some ((new_regular_block (Some a) del)\<lparr>weak_counter := 1\<rparr>)"
      "get_object s' a =
         Inr (Self_observing \<lparr>wp_ptr = Some a, wp_control_block = Some (next_addr s)\<rparr>)"
      "allocated s' = insert (next_addr s) (allocated s)" "log s' = log s"
    using from_raw_fresh [OF assms(1) nb fr] by blast
  have "shared_from_this s' a =
          Inr (\<lparr>sp_ptr = Some a, sp_control_block = Some (next_addr s)\<rparr>,
               put_block s' (next_addr s)
                 ((new_regular_block (Some a) del)\<lparr>shared_counter := 2, weak_counter := 1\<rparr>))"
    using shared_from_this_registered [OF s'(3) s'(2)] by (simp add: new_regular_block_def)
  then show ?thesis using True s' by auto
qed

theorem from_raw_self_observing_witness:
  "SharedPtr_from_raw observed True (Some (Heap 0)) Default_delete =
     Inr (owner, put_block observed 0
                   \<lparr>shared_counter = 2, weak_counter = 1,
                    variant = Regular_block (Some (Heap 0)) Default_delete\<rparr>)
   \<and> (\<exists>s'. SharedPtr_from_raw unowned_observer True (Some (Heap 0)) Default_delete =
              Inr (owner, s')
         \<and> blocks s' 0 = Some \<lparr>shared_counter = 1, weak_counter = 1,
                                 variant = Regular_block (Some (Heap 0)) Default_delete\<rparr>
         \<and> get_object s' (Heap 0) = Inr (Self_observing \<lparr>wp_ptr = Some (Heap 0), wp_control_block = Some 0\<rparr>)
         \<and> allocated s' = {0})"
proof -
  let ?blk2 = "\<lparr>shared_counter = 2, weak_counter = 1,
                variant = Regular_block (Some (Heap 0)) Default_delete\<rparr>"
  have a1: "shared_from_this observed (Heap 0) = Inr (owner, put_block observed 0 ?blk2)"
    by (simp add: shared_from_this_def get_object_def observed_def and_then_Inr lock_def
        SharedPtr_private_def get_block_def put_block_def owner_def)
  have a2: "use_count (put_block observed 0 ?blk2) owner = Inr 2"
    by (simp add: use_count_def owner_def get_block_def put_block_def and_then_Inr)
  have a3: "(2::size_t) = 0 \<longrightarrow> sp_control_block owner = None \<and> Heap 0 \<noteq> Embedded (next_addr observed)"
    by simp
  have b1: "shared_from_this unowned_observer (Heap 0) =
              Inr (\<lparr>sp_ptr = None, sp_control_block = None\<rparr>, unowned_observer)"
    by (simp add: shared_from_this_def get_object_def unowned_observer_def init_def and_then_Inr
        lock_def SharedPtr_private_def WeakPtr_default_def)
  have b2: "use_count unowned_observer \<lparr>sp_ptr = None, sp_control_block = None\<rparr> = Inr 0"
    by (simp add: use_count_def)
  have b3: "(0::size_t) = 0 \<longrightarrow> sp_control_block \<lparr>sp_ptr = None, sp_control_block = None\<rparr> = None
              \<and> Heap 0 \<noteq> Embedded (next_addr unowned_observer)"
    by simp
  have n: "next_addr unowned_observer = 0" by (simp add: unowned_observer_def init_def)
  have al: "allocated unowned_observer = {}" by (simp add: unowned_observer_def init_def)
  show ?thesis
    using from_raw_self_observing [OF a1 a2 a3, of Default_delete]
      from_raw_self_observing [OF b1 b2 b3, of Default_delete]
    by (auto simp add: n al owner_def new_regular_block_def)
qed

section \<open>The use count of copies\<close>

lemma copy_n_adds:
  "blocks s b = Some blk \<Longrightarrow> sp_control_block p = Some b \<Longrightarrow>
   copy_n s p n =
     Inr (replicate n p, put_block s b (blk\<lparr>shared_counter := shared_counter blk + of_nat n\<rparr>))"
proof (induction n arbitrary: s blk)
  case 0
  then show ?case by (simp add: put_block_same)
next
  case (Suc n)
  let ?blk1 = "blk\<lparr>shared_counter := shared_counter blk + 1\<rparr>"
  let ?s1 = "put_block s b ?blk1"
  have cp: "SharedPtr_copy s p = Inr (p, ?s1)"
    using Suc.prems by (rule SharedPtr_copy_live)
  have b1: "blocks ?s1 b = Some ?blk1" by (rule blocks_put_block)
  have "copy_n ?s1 p n =
          Inr (replicate n p,
               put_block ?s1 b (?blk1\<lparr>shared_counter := shared_counter ?blk1 + of_nat n\<rparr>))"
    using Suc.IH [OF b1 Suc.prems(2)] .
  then show ?case using cp
    by (simp add: and_then_Inr put_block_def add.assoc)
qed

text \<open>
  Claim C7. A block fresh from a constructor has a strong count of 1, for its one handle
  \<open>p\<close>. With \<open>N - 1\<close> copies of \<open>p\<close> there are \<open>N\<close> handles of the block (all of them
  have the fields of \<open>p\<close>), and \<^verbatim>\<open>use_count()\<close> is \<open>N\<close>; when one of them dies and others
  are left, it is \<open>N - 1\<close>. On a handle with no block it is 0. \<open>N\<close> is below \<open>2 ^ 64\<close>,
  the number of values of a \<^verbatim>\<open>size_t\<close> counter: a handle takes 16 bytes, so the handles of
  a program are fewer than that.
\<close>

theorem use_count_counts_copies:
  assumes "blocks s b = Some blk"
    and "shared_counter blk = 1"
    and "sp_control_block p = Some b"
    and "1 \<le> N" and "N < 2 ^ 64"
  shows "copy_n s p (N - 1) =
           Inr (replicate (N - 1) p, put_block s b (blk\<lparr>shared_counter := of_nat N\<rparr>))
       \<and> use_count (put_block s b (blk\<lparr>shared_counter := of_nat N\<rparr>)) p = Inr (of_nat N)
       \<and> unat (of_nat N :: size_t) = N
       \<and> (2 \<le> N \<longrightarrow>
            SharedPtr_dtor (put_block s b (blk\<lparr>shared_counter := of_nat N\<rparr>)) p =
              Inr (put_block s b (blk\<lparr>shared_counter := of_nat (N - 1)\<rparr>))
          \<and> use_count (put_block s b (blk\<lparr>shared_counter := of_nat (N - 1)\<rparr>)) p =
              Inr (of_nat (N - 1))
          \<and> unat (of_nat (N - 1) :: size_t) = N - 1)
       \<and> use_count s \<lparr>sp_ptr = q, sp_control_block = None\<rparr> = Inr 0"
proof -
  let ?blk' = "blk\<lparr>shared_counter := of_nat N\<rparr>"
  let ?s' = "put_block s b ?blk'"
  have "of_nat (Suc (N - 1)) = (1::size_t) + of_nat (N - 1)" by simp
  then have eq: "(1::size_t) + of_nat (N - 1) = of_nat N" using assms(4) by simp
  have cp: "copy_n s p (N - 1) = Inr (replicate (N - 1) p, ?s')"
    using copy_n_adds [OF assms(1) assms(3), of "N - 1"] assms(2) eq by simp
  have b': "blocks ?s' b = Some ?blk'" by (rule blocks_put_block)
  have uc: "use_count ?s' p = Inr (of_nat N)"
    using use_count_live [OF b' assms(3)] by simp
  have un: "unat (of_nat N :: size_t) = N" using assms(5) by (simp add: unat_of_nat)
  have rest: "SharedPtr_dtor ?s' p = Inr (put_block s b (blk\<lparr>shared_counter := of_nat (N - 1)\<rparr>))
          \<and> use_count (put_block s b (blk\<lparr>shared_counter := of_nat (N - 1)\<rparr>)) p =
              Inr (of_nat (N - 1))
          \<and> unat (of_nat (N - 1) :: size_t) = N - 1" if n2: "2 \<le> N"
  proof -
    have ne: "shared_counter ?blk' \<noteq> 1"
    proof
      assume "shared_counter ?blk' = 1"
      then have "unat (of_nat N :: size_t) = unat (1::size_t)" by simp
      then show False using un n2 by simp
    qed
    have m: "(of_nat N :: size_t) - 1 = of_nat (N - 1)" using n2 by (simp add: of_nat_diff)
    have d: "SharedPtr_dtor ?s' p = Inr (put_block s b (blk\<lparr>shared_counter := of_nat (N - 1)\<rparr>))"
      using SharedPtr_dtor_not_last [OF b' assms(3) ne] m by (simp add: put_block_twice)
    have u: "use_count (put_block s b (blk\<lparr>shared_counter := of_nat (N - 1)\<rparr>)) p =
              Inr (of_nat (N - 1))"
      using use_count_live [OF blocks_put_block assms(3)] by simp
    have un': "unat (of_nat (N - 1) :: size_t) = N - 1" using assms(5) by (simp add: unat_of_nat)
    show ?thesis using d u un' by simp
  qed
  have e: "use_count s \<lparr>sp_ptr = q, sp_control_block = None\<rparr> = Inr 0"
    by (simp add: use_count_def)
  show ?thesis using cp uc un rest e by simp
qed

theorem use_count_counts_copies_witness:
  "copy_n owned owner 2 =
     Inr ([owner, owner], put_block owned 0 (owned_block\<lparr>shared_counter := 3\<rparr>))
   \<and> use_count (put_block owned 0 (owned_block\<lparr>shared_counter := 3\<rparr>)) owner = Inr 3
   \<and> SharedPtr_dtor (put_block owned 0 (owned_block\<lparr>shared_counter := 3\<rparr>)) owner =
       Inr (put_block owned 0 (owned_block\<lparr>shared_counter := 2\<rparr>))
   \<and> use_count (put_block owned 0 (owned_block\<lparr>shared_counter := 2\<rparr>)) owner = Inr 2
   \<and> use_count owned SharedPtr_default = Inr 0"
proof -
  have h1: "blocks owned 0 = Some owned_block" by (simp add: owned_def)
  have h2: "shared_counter owned_block = 1" by (simp add: owned_block_def new_regular_block_def)
  have h3: "sp_control_block owner = Some 0" by (simp add: owner_def)
  have h4: "1 \<le> (3::nat)" by simp
  have h5: "(3::nat) < 2 ^ 64" by simp
  have r: "replicate (3 - 1) owner = [owner, owner]" by (simp add: numeral_2_eq_2)
  show ?thesis
    using use_count_counts_copies [OF h1 h2 h3 h4 h5, of None] r
    by (simp add: SharedPtr_default_def)
qed

section \<open>Construction in place and back\<close>

text \<open>
  Claim C8. When the constructor of the object returns, \<^verbatim>\<open>makeShared\<close> (which is
  \<^verbatim>\<open>allocateShared\<close>) returns one handle \<open>p\<close> with a use count of 1, which points to the
  object inside a new \<^verbatim>\<open>shared_block\<close> in fresh storage \<open>b\<close>. With no weak handle made,
  the death of \<open>p\<close> enters \<^verbatim>\<open>destroy()\<close> once, ends the life of the object once and
  calls \<^verbatim>\<open>deallocate()\<close> once, in this order; what is allocated and what blocks there are
  is then as before the call.
\<close>

theorem makeShared_round_trip:
  assumes "next_addr s \<notin> allocated s"
    and "blocks s (next_addr s) = None"
    and "b = next_addr s"
    and "p = \<lparr>sp_ptr = Some (Embedded b), sp_control_block = Some b\<rparr>"
    and "s1 = s\<lparr>blocks := (blocks s)(b \<mapsto> \<lparr>shared_counter = 1, weak_counter = 0,
                                             variant = Shared_block (new_object self_observing)\<rparr>),
                allocated := insert b (allocated s), next_addr := Suc b\<rparr>"
  shows "makeShared s self_observing Ctor_returns = Inr (p, s1)
       \<and> allocateShared s self_observing Ctor_returns = Inr (p, s1)
       \<and> use_count s1 p = Inr 1
       \<and> get_object s1 (Embedded b) = Inr (new_object self_observing)
       \<and> SharedPtr_dtor s1 p =
           Inr (s\<lparr>next_addr := Suc b,
                  log := log s @ [Ev_destroy b, Ev_object_destroyed (Embedded b), Ev_deallocate b]\<rparr>)
       \<and> allocated (s\<lparr>next_addr := Suc b,
                  log := log s @ [Ev_destroy b, Ev_object_destroyed (Embedded b), Ev_deallocate b]\<rparr>)
           = allocated s
       \<and> blocks (s\<lparr>next_addr := Suc b,
                  log := log s @ [Ev_destroy b, Ev_object_destroyed (Embedded b), Ev_deallocate b]\<rparr>)
           = blocks s"
proof -
  have mk: "allocateShared s self_observing Ctor_returns = Inr (p, s1)"
    using assms(3,4,5)
    by (simp add: allocateShared_def allocate_def put_block_def SharedPtr_private_def
        get_block_def and_then_Inr)
  have uc: "use_count s1 p = Inr 1"
    using assms(4,5) by (simp add: use_count_def get_block_def and_then_Inr)
  have go: "get_object s1 (Embedded b) = Inr (new_object self_observing)"
    using assms(5) by (simp add: get_object_def get_block_def and_then_Inr)
  have od: "object_dtor t (new_object self_observing) = Inr t" for t
    by (simp add: object_dtor_def new_object_def WeakPtr_dtor_def WeakPtr_default_def)
  have dt: "SharedPtr_dtor s1 p =
           Inr (s\<lparr>next_addr := Suc b,
                  log := log s @ [Ev_destroy b, Ev_object_destroyed (Embedded b), Ev_deallocate b]\<rparr>)"
    using assms(1,2,3,4,5)
    by (simp add: SharedPtr_dtor_def get_block_def put_block_def and_then_Inr Let_def destroy_def
        od emit_def deallocate_def fun_upd_idem)
  show ?thesis using mk uc go dt by (simp add: makeShared_def)
qed

theorem makeShared_round_trip_witness:
  "makeShared init True Ctor_returns =
     Inr (\<lparr>sp_ptr = Some (Embedded 0), sp_control_block = Some 0\<rparr>,
          \<lparr>blocks = [0 \<mapsto> \<lparr>shared_counter = 1, weak_counter = 0,
                            variant = Shared_block (Self_observing WeakPtr_default)\<rparr>],
           allocated = {0}, objects = Map.empty, next_addr = 1, log = []\<rparr>)
   \<and> SharedPtr_dtor
       \<lparr>blocks = [0 \<mapsto> \<lparr>shared_counter = 1, weak_counter = 0,
                           variant = Shared_block (Self_observing WeakPtr_default)\<rparr>],
        allocated = {0}, objects = Map.empty, next_addr = 1, log = []\<rparr>
       \<lparr>sp_ptr = Some (Embedded 0), sp_control_block = Some 0\<rparr> =
     Inr \<lparr>blocks = Map.empty, allocated = {}, objects = Map.empty, next_addr = 1,
          log = [Ev_destroy 0, Ev_object_destroyed (Embedded 0), Ev_deallocate 0]\<rparr>"
proof -
  have h1: "next_addr init \<notin> allocated init" by (simp add: init_def)
  have h2: "blocks init (next_addr init) = None" by (simp add: init_def)
  have h3: "(0::nat) = next_addr init" by (simp add: init_def)
  have h4: "\<lparr>sp_ptr = Some (Embedded 0), sp_control_block = Some 0\<rparr> =
            \<lparr>sp_ptr = Some (Embedded 0), sp_control_block = Some 0\<rparr>" by simp
  have h5: "\<lparr>blocks = [0 \<mapsto> \<lparr>shared_counter = 1, weak_counter = 0,
                           variant = Shared_block (Self_observing WeakPtr_default)\<rparr>],
        allocated = {0}, objects = Map.empty, next_addr = 1, log = []\<rparr> =
        init\<lparr>blocks := (blocks init)(0 \<mapsto> \<lparr>shared_counter = 1, weak_counter = 0,
                                             variant = Shared_block (new_object True)\<rparr>),
                allocated := insert 0 (allocated init), next_addr := Suc 0\<rparr>"
    by (simp add: init_def new_object_def)
  show ?thesis
    using makeShared_round_trip [OF h1 h2 h3 h4 h5]
    by (simp add: init_def)
qed

section \<open>Self-assignment\<close>

text \<open>
  Claim C9. For a handle \<open>p\<close> that is empty, or whose block is live and counts it,
  \<^verbatim>\<open>p = p\<close> leaves \<open>p\<close> and the whole memory as they were: the counter goes up by one
  for the temporary and down again when it dies, and the list of events is the same, so
  \<^verbatim>\<open>destroy()\<close> and \<^verbatim>\<open>deallocate()\<close> were not called, and \<^verbatim>\<open>use_count()\<close> is what
  it was. \<^verbatim>\<open>p = std::move(p)\<close>, for the variable \<open>x\<close> of a store, leaves the store and
  the memory as they were.
\<close>

theorem self_assignment_changes_nothing:
  assumes "holds_share s p"
  shows "SharedPtr_assign s p p = Inr (p, s)
       \<and> SharedPtr_move_assign s (vars(x := p)) x x = Inr (vars(x := p), s)
       \<and> and_then (SharedPtr_assign s p p) (\<lambda>(p', s'). use_count s' p') = use_count s p"
proof -
  have mv: "SharedPtr_move_assign s (vars(x := p)) x x = Inr (vars(x := p), s)"
    by (simp add: SharedPtr_move_assign_def SharedPtr_move_def SharedPtr_swap_def
        SharedPtr_dtor_def and_then_Inr SharedPtr_eta)
  show ?thesis
  proof (cases "sp_control_block p")
    case None
    have "SharedPtr_assign s p p = Inr (p, s)"
      using None
      by (simp add: SharedPtr_assign_def SharedPtr_copy_def SharedPtr_swap_def SharedPtr_dtor_def
          and_then_Inr)
    then show ?thesis using mv by (simp add: and_then_Inr)
  next
    case (Some b)
    then obtain blk where blk: "blocks s b = Some blk" "shared_counter blk \<noteq> 0"
      using assms by (auto simp: holds_share_def split: option.splits)
    let ?blk1 = "blk\<lparr>shared_counter := shared_counter blk + 1\<rparr>"
    let ?s1 = "put_block s b ?blk1"
    have cp: "SharedPtr_copy s p = Inr (p, ?s1)" by (rule SharedPtr_copy_live [OF blk(1) Some])
    have ne: "shared_counter ?blk1 \<noteq> 1" using blk(2) by simp
    have "SharedPtr_dtor ?s1 p =
            Inr (put_block ?s1 b (?blk1\<lparr>shared_counter := shared_counter ?blk1 - 1\<rparr>))"
      by (rule SharedPtr_dtor_not_last [OF blocks_put_block Some ne])
    also have "put_block ?s1 b (?blk1\<lparr>shared_counter := shared_counter ?blk1 - 1\<rparr>) = s"
      using blk(1) by (simp add: put_block_twice put_block_same)
    finally have d: "SharedPtr_dtor ?s1 p = Inr s" .
    have "SharedPtr_assign s p p = Inr (p, s)"
      by (simp add: SharedPtr_assign_def cp and_then_Inr SharedPtr_swap_def SharedPtr_eta d)
    then show ?thesis using mv by (simp add: and_then_Inr)
  qed
qed

theorem self_assignment_changes_nothing_witness:
  "holds_share owned owner
   \<and> SharedPtr_assign owned owner owner = Inr (owner, owned)
   \<and> SharedPtr_move_assign owned ((\<lambda>x. SharedPtr_default)(0 := owner)) 0 0 =
       Inr ((\<lambda>x. SharedPtr_default)(0 := owner), owned)
   \<and> SharedPtr_assign owned SharedPtr_default SharedPtr_default = Inr (SharedPtr_default, owned)"
proof -
  have h: "holds_share owned owner"
    by (simp add: holds_share_def owned_def owner_def owned_block_def new_regular_block_def)
  have e: "holds_share owned SharedPtr_default"
    by (simp add: holds_share_def SharedPtr_default_def)
  show ?thesis
    using h self_assignment_changes_nothing [OF h, of "\<lambda>x. SharedPtr_default" 0]
      self_assignment_changes_nothing [OF e, of "\<lambda>x. SharedPtr_default" 0]
    by (simp add: owner_def owned_def owned_block_def new_regular_block_def)
qed

section \<open>Empty handles\<close>









end
